theory Spec2Isabelle
  imports Complex_Main
begin

section \<open>Numbers of the dashboard script\<close>

text \<open>
  The script \<^verbatim>\<open>app.py\<close> computes with Python integers (the slider values), Python
  floats (the results of \<^verbatim>\<open>/\<close>, \<^verbatim>\<open>*\<close> and \<^verbatim>\<open>**\<close>) and one numpy \<^verbatim>\<open>float64\<close> (the
  predicted calories).

  A finite float is modelled by the rational number it denotes, so every comparison of the
  script (\<^verbatim>\<open><\<close>, \<^verbatim>\<open><=\<close>, \<^verbatim>\<open>>\<close>) is the exact order on \<^typ>\<open>rat\<close>. The literals the
  script compares with are 50, 60, 70, 80, 90, 10, 7 and 18.5, which binary64 holds exactly,
  and 24.9, whose nearest float is the largest float below it: a float is at most that float
  exactly when it is at most 249/10, so the literal is modelled by 249/10.

  Each arithmetic operation of the script is the exact operation followed by the rounding of
  the platform, which is not part of the repository: it is the parameter \<open>fl\<close> of every
  definition below. A statement that holds for every \<open>fl\<close> holds for the script whatever its
  rounding is; a statement that needs more assumes \<open>rounding fl\<close>, an error of at most one
  unit in the last place of binary64 (which also covers a \<^verbatim>\<open>pow\<close> that is only faithfully
  rounded), or that one given number is representable. With \<open>id\<close> for \<open>fl\<close> nothing is
  rounded. The exponent range of binary64 (overflow, underflow) is not modelled: the
  definitions have no \<^verbatim>\<open>OverflowError\<close>. The statements on the divisor checks and on
  the row handed to the model, which say that an operation returns a value, are therefore
  made under \<open>rounds_normal fl\<close>, the same error bound asked only of numbers in the normal
  range of binary64, and for integers that binary64 holds exactly (\<open>exact_int\<close>), where the
  script neither overflows nor underflows.
\<close>

datatype py_error = ZeroDivisionError

definition rounding :: "(rat \<Rightarrow> rat) \<Rightarrow> bool" where
  "rounding fl \<longleftrightarrow> (\<forall>x. \<bar>fl x - x\<bar> \<le> \<bar>x\<bar> / 2 ^ 52)"

definition rounds_normal :: "(rat \<Rightarrow> rat) \<Rightarrow> bool" where
  "rounds_normal fl \<longleftrightarrow>
     (\<forall>x. 1 / 2 ^ 1022 \<le> \<bar>x\<bar> \<and> \<bar>x\<bar> \<le> 2 ^ 1023 \<longrightarrow> \<bar>fl x - x\<bar> \<le> \<bar>x\<bar> / 2 ^ 52)"

definition exact_int :: "int \<Rightarrow> bool" where
  "exact_int n \<longleftrightarrow> \<bar>n\<bar> \<le> 2 ^ 53"

text \<open>
  Python's true division \<^verbatim>\<open>x / y\<close> on integers and floats: a zero divisor raises
  \<^verbatim>\<open>ZeroDivisionError\<close>, otherwise the result is the rounded quotient.
\<close>

definition truediv :: "(rat \<Rightarrow> rat) \<Rightarrow> rat \<Rightarrow> rat \<Rightarrow> py_error + rat" where
  "truediv fl x y = (if y = 0 then Inl ZeroDivisionError else Inr (fl (x / y)))"

text \<open>
  A numpy \<^verbatim>\<open>float64\<close> divided by a Python integer does not raise: under numpy's default
  error state a zero divisor gives an infinity, or NaN for \<^verbatim>\<open>0.0 / 0\<close>, with a warning only.
  Comparisons with NaN are false.
\<close>

datatype float64 = Finite rat | PosInf | NegInf | NaN

definition np_truediv :: "(rat \<Rightarrow> rat) \<Rightarrow> rat \<Rightarrow> int \<Rightarrow> float64" where
  "np_truediv fl x n =
     (if n = 0 then (if x = 0 then NaN else if 0 < x then PosInf else NegInf)
      else Finite (fl (x / of_int n)))"

fun np_gt :: "float64 \<Rightarrow> rat \<Rightarrow> bool" where
  "np_gt (Finite v) c = (c < v)"
| "np_gt PosInf c = True"
| "np_gt NegInf c = False"
| "np_gt NaN c = False"

section \<open>Maximum heart rate and intensity zone\<close>

text \<open>\<^verbatim>\<open>calculate_max_heart_rate(age)\<close>, lines 164 to 166: \<^verbatim>\<open>return 220 - age\<close>.\<close>

definition calculate_max_heart_rate :: "int \<Rightarrow> int" where
  "calculate_max_heart_rate age = 220 - age"

text \<open>
  The dictionary returned by \<^verbatim>\<open>get_intensity_zone\<close> always has the same five string keys;
  the key \<^verbatim>\<open>'range'\<close> is the field \<open>zone_range\<close>.
\<close>

record intensity_zone =
  zone :: string
  level :: string
  color :: string
  description :: string
  zone_range :: string

text \<open>The six dictionary literals of \<^verbatim>\<open>get_intensity_zone\<close>, in the order of its branches.\<close>

definition zone_rest :: intensity_zone where
  "zone_rest = \<lparr>zone = ''Rest'', level = ''Very Light'', color = ''#94A3B8'',
     description = ''Recovery and rest'', zone_range = ''< 50%''\<rparr>"

definition zone_1 :: intensity_zone where
  "zone_1 = \<lparr>zone = ''Zone 1'', level = ''Light'', color = ''#10B981'',
     description = ''Warm-up and recovery'', zone_range = ''50-60%''\<rparr>"

definition zone_2 :: intensity_zone where
  "zone_2 = \<lparr>zone = ''Zone 2'', level = ''Moderate'', color = ''#3B82F6'',
     description = ''Fat burning and endurance'', zone_range = ''60-70%''\<rparr>"

definition zone_3 :: intensity_zone where
  "zone_3 = \<lparr>zone = ''Zone 3'', level = ''Vigorous'', color = ''#F59E0B'',
     description = ''Aerobic capacity building'', zone_range = ''70-80%''\<rparr>"

definition zone_4 :: intensity_zone where
  "zone_4 = \<lparr>zone = ''Zone 4'', level = ''Hard'', color = ''#EF4444'',
     description = ''Anaerobic threshold'', zone_range = ''80-90%''\<rparr>"

definition zone_5 :: intensity_zone where
  "zone_5 = \<lparr>zone = ''Zone 5'', level = ''Maximum'', color = ''#DC2626'',
     description = ''Maximum effort'', zone_range = ''90-100%''\<rparr>"

text \<open>
  \<^verbatim>\<open>hr_percentage = (heart_rate / max_hr) * 100\<close>, line 170 (and again line 343): the
  division raises on a zero \<^verbatim>\<open>max_hr\<close>; the quotient and the product are each rounded.
\<close>

definition hr_percentage :: "(rat \<Rightarrow> rat) \<Rightarrow> rat \<Rightarrow> rat \<Rightarrow> py_error + rat" where
  "hr_percentage fl heart_rate max_hr =
     (case truediv fl heart_rate max_hr of
        Inl e \<Rightarrow> Inl e
      | Inr q \<Rightarrow> Inr (fl (q * 100)))"

text \<open>\<^verbatim>\<open>get_intensity_zone(heart_rate, max_hr)\<close>, lines 168 to 219: the chain of \<^verbatim>\<open>if/elif\<close>.\<close>

definition get_intensity_zone :: "(rat \<Rightarrow> rat) \<Rightarrow> rat \<Rightarrow> rat \<Rightarrow> py_error + intensity_zone" where
  "get_intensity_zone fl heart_rate max_hr =
     (case hr_percentage fl heart_rate max_hr of
        Inl e \<Rightarrow> Inl e
      | Inr p \<Rightarrow>
          Inr (if p < 50 then zone_rest
               else if p < 60 then zone_1
               else if p < 70 then zone_2
               else if p < 80 then zone_3
               else if p < 90 then zone_4
               else zone_5))"

section \<open>The analysis run by the button\<close>

text \<open>
  Lines 363 to 466, the body of \<^verbatim>\<open>if predict_btn:\<close>, without its rendering calls. The
  widgets give \<^verbatim>\<open>gender\<close> as a string, \<^verbatim>\<open>age\<close>, \<^verbatim>\<open>height\<close>, \<^verbatim>\<open>weight\<close>, \<^verbatim>\<open>duration\<close> and
  \<^verbatim>\<open>heart_rate\<close> as integers and \<^verbatim>\<open>body_temp\<close> as a float.
\<close>

definition gender_encoded :: "string \<Rightarrow> int" where
  "gender_encoded gender = (if gender = ''Male'' then 1 else 0)"

text \<open>The one row of the data frame handed to \<^verbatim>\<open>model.predict\<close>, a field per column.\<close>

record features =
  Gender :: int
  Age :: int
  Height :: int
  Weight :: int
  Duration :: int
  Heart_Rate :: int
  Body_Temp :: rat

definition input_data :: "string \<Rightarrow> int \<Rightarrow> int \<Rightarrow> int \<Rightarrow> int \<Rightarrow> int \<Rightarrow> rat \<Rightarrow> features" where
  "input_data gender age height weight duration heart_rate body_temp =
     \<lparr>Gender = gender_encoded gender, Age = age, Height = height, Weight = weight,
      Duration = duration, Heart_Rate = heart_rate, Body_Temp = body_temp\<rparr>"

text \<open>
  \<^verbatim>\<open>cal_per_min = prediction / duration\<close>, line 378: numpy's division of the prediction,
  a finite \<^verbatim>\<open>float64\<close>, by the integer of the slider.
\<close>

definition cal_per_min :: "(rat \<Rightarrow> rat) \<Rightarrow> rat \<Rightarrow> int \<Rightarrow> float64" where
  "cal_per_min fl prediction duration = np_truediv fl prediction duration"

text \<open>
  \<^verbatim>\<open>bmi = weight / ((height/100) ** 2)\<close>, line 410: dividing by the constant 100 cannot
  raise, the square is rounded, and the last division raises when the square is zero.
\<close>

definition bmi :: "(rat \<Rightarrow> rat) \<Rightarrow> rat \<Rightarrow> rat \<Rightarrow> py_error + rat" where
  "bmi fl weight height = truediv fl weight (fl ((fl (height / 100)) ^ 2))"

text \<open>Line 411, a conditional expression with \<^verbatim>\<open>18.5 <= bmi <= 24.9\<close> tested first.\<close>

definition bmi_status :: "rat \<Rightarrow> string" where
  "bmi_status b =
     (if 185 / 10 \<le> b \<and> b \<le> 249 / 10 then ''Normal''
      else (if b < 185 / 10 then ''Underweight'' else ''Overweight''))"

text \<open>
  Lines 452 to 466: the colour (looked up in \<^verbatim>\<open>MEDICAL_COLORS\<close>: \<^verbatim>\<open>success\<close>,
  \<^verbatim>\<open>secondary\<close>, \<^verbatim>\<open>warning\<close>), the title and the text of the recommendation card. The icon,
  a pictograph outside ASCII, is left out.
\<close>

record recommendation =
  rec_color :: string
  rec_title :: string
  rec_text :: string

definition recommend :: "float64 \<Rightarrow> recommendation" where
  "recommend c =
     (if np_gt c 10 then
        \<lparr>rec_color = ''#10B981'', rec_title = ''Excellent'',
         rec_text = ''High-intensity workout with optimal calorie burn rate.''\<rparr>
      else if np_gt c 7 then
        \<lparr>rec_color = ''#4A90C4'', rec_title = ''Good'',
         rec_text = ''Moderate intensity - effective for endurance and fat burning.''\<rparr>
      else
        \<lparr>rec_color = ''#F59E0B'', rec_title = ''Improvement'',
         rec_text = ''Consider increasing intensity to boost calorie expenditure.''\<rparr>)"

text \<open>
  What one run of the block computes, in the order of the script: the prediction of the
  external model (the parameter \<open>predict\<close>), the burn rate, the intensity zone, the body mass
  index with its status, and the recommendation. An exception ends the run where it is
  raised. (Line 343, which the script runs before the block, divides by \<^verbatim>\<open>max_hr\<close> as
  \<^verbatim>\<open>get_intensity_zone\<close> does and raises the same error for the same inputs.)
\<close>

record report =
  rep_prediction :: rat
  rep_cal_per_min :: float64
  rep_intensity_info :: intensity_zone
  rep_bmi :: rat
  rep_bmi_status :: string
  rep_recommendation :: recommendation

definition analyze_workout ::
  "(rat \<Rightarrow> rat) \<Rightarrow> (features \<Rightarrow> rat) \<Rightarrow> string \<Rightarrow> int \<Rightarrow> int \<Rightarrow> int \<Rightarrow> int \<Rightarrow> int \<Rightarrow> rat
     \<Rightarrow> py_error + report" where
  "analyze_workout fl predict gender age height weight duration heart_rate body_temp =
     (let max_hr = calculate_max_heart_rate age;
          prediction = predict (input_data gender age height weight duration heart_rate body_temp);
          cpm = cal_per_min fl prediction duration
      in case get_intensity_zone fl (of_int heart_rate) (of_int max_hr) of
           Inl e \<Rightarrow> Inl e
         | Inr intensity_info \<Rightarrow>
             (case bmi fl (of_int weight) (of_int height) of
                Inl e \<Rightarrow> Inl e
              | Inr b \<Rightarrow>
                  Inr \<lparr>rep_prediction = prediction, rep_cal_per_min = cpm,
                       rep_intensity_info = intensity_info, rep_bmi = b,
                       rep_bmi_status = bmi_status b,
                       rep_recommendation = recommend cpm\<rparr>))"

section \<open>Tables used to state the properties\<close>

text \<open>The six dictionaries of \<^verbatim>\<open>get_intensity_zone\<close>, in the order of its branches.\<close>

definition intensity_zones :: "intensity_zone list" where
  "intensity_zones = [zone_rest, zone_1, zone_2, zone_3, zone_4, zone_5]"

text \<open>
  The table of the specification of the zone classifier, as the specification words it: six
  half-open intervals of the percentage, each with an inclusive lower bound and an
  exclusive upper bound, the last one unbounded; on the axis from 0 the first starts at 0.
\<close>

definition spec_zone_intervals :: "(rat \<times> rat option) list" where
  "spec_zone_intervals =
     [(0, Some 50), (50, Some 60), (60, Some 70), (70, Some 80), (80, Some 90), (90, None)]"

fun in_interval :: "rat \<times> rat option \<Rightarrow> rat \<Rightarrow> bool" where
  "in_interval (lo, Some hi) p = (lo \<le> p \<and> p < hi)"
| "in_interval (lo, None) p = (lo \<le> p)"

text \<open>
  A model that predicts the same number of calories for every row, and one that predicts the
  gender column of the row it is handed.
\<close>

definition fixed_model :: "rat \<Rightarrow> features \<Rightarrow> rat" where
  "fixed_model c row = c"

definition gender_column_model :: "features \<Rightarrow> rat" where
  "gender_column_model row = of_int (Gender row)"

section \<open>Rounding\<close>

lemma rounds_normal_id: "rounds_normal id"
  by (simp add: rounds_normal_def)

lemma rounds_normal_half:
  assumes "rounds_normal fl" "lo \<le> \<bar>x\<bar>" "\<bar>x\<bar> \<le> hi" "1 / 2 ^ 1022 \<le> lo" "hi \<le> 2 ^ 1023"
  shows "lo / 2 \<le> \<bar>fl x\<bar> \<and> \<bar>fl x\<bar> \<le> 2 * hi"
proof -
  have "1 / 2 ^ 1022 \<le> \<bar>x\<bar> \<and> \<bar>x\<bar> \<le> 2 ^ 1023" using assms(2-5) by linarith
  then have e: "\<bar>fl x - x\<bar> \<le> \<bar>x\<bar> / 2 ^ 52" using assms(1) by (simp add: rounds_normal_def)
  have "\<bar>x\<bar> / 2 ^ 52 \<le> \<bar>x\<bar> / 2" by simp
  with e have "\<bar>fl x - x\<bar> \<le> \<bar>x\<bar> / 2" by linarith
  then have "\<bar>x\<bar> / 2 \<le> \<bar>fl x\<bar>" "\<bar>fl x\<bar> \<le> 2 * \<bar>x\<bar>" by linarith+
  then show ?thesis using assms(2,3) by linarith
qed

lemma rounding_id: "rounding id"
  by (simp add: rounding_def)

lemma rounding_zero: "rounding fl \<Longrightarrow> fl 0 = 0"
  using rounding_def [of fl] by (metis abs_zero diff_zero div_0 abs_le_zero_iff)

lemma rounding_neg: "rounding fl \<Longrightarrow> x < 0 \<Longrightarrow> fl x < 0"
proof -
  assume r: "rounding fl" and x: "x < 0"
  have "\<bar>fl x - x\<bar> \<le> \<bar>x\<bar> / 2 ^ 52" using r by (simp add: rounding_def)
  moreover have "\<bar>x\<bar> / 2 ^ 52 < \<bar>x\<bar>" using x by simp
  ultimately show ?thesis using x by linarith
qed

section \<open>The intensity zone\<close>

lemma hr_percentage_ok:
  "max_hr \<noteq> 0 \<Longrightarrow> hr_percentage fl heart_rate max_hr = Inr (fl (fl (heart_rate / max_hr) * 100))"
  by (simp add: hr_percentage_def truediv_def)

lemma hr_percentage_close:
  assumes r: "rounding fl" and m: "max_hr \<noteq> 0"
  shows "\<bar>fl (fl (heart_rate / max_hr) * 100) - heart_rate / max_hr * 100\<bar>
           \<le> \<bar>heart_rate / max_hr * 100\<bar> / 2 ^ 50"
proof -
  define q where "q = heart_rate / max_hr"
  define q' where "q' = fl q"
  define p where "p = fl (q' * 100)"
  define A where "A = \<bar>p - q' * 100\<bar>"
  define B where "B = \<bar>q' - q\<bar>"
  define Q where "Q = \<bar>q\<bar>"
  define Q' where "Q' = \<bar>q'\<bar>"
  have 1: "B \<le> Q / 2 ^ 52" using r by (simp add: rounding_def q'_def B_def Q_def)
  have "\<bar>p - q' * 100\<bar> \<le> \<bar>q' * 100\<bar> / 2 ^ 52" using r by (simp add: rounding_def p_def)
  then have 2: "A \<le> 100 * Q' / 2 ^ 52" by (simp add: abs_mult A_def Q'_def)
  have e: "\<bar>100 * (q' - q)\<bar> = 100 * B" unfolding B_def by (subst abs_mult) simp
  have "\<bar>p - q * 100\<bar> = \<bar>(p - q' * 100) + 100 * (q' - q)\<bar>" by simp
  also have "\<dots> \<le> \<bar>p - q' * 100\<bar> + \<bar>100 * (q' - q)\<bar>" by (rule abs_triangle_ineq)
  finally have 3: "\<bar>p - q * 100\<bar> \<le> A + 100 * B" unfolding e A_def .
  have "\<bar>q + (q' - q)\<bar> \<le> \<bar>q\<bar> + \<bar>q' - q\<bar>" by (rule abs_triangle_ineq)
  then have 4: "Q' \<le> Q + B" by (simp add: Q'_def Q_def B_def)
  have 5: "0 \<le> Q" by (simp add: Q_def)
  have "A + 100 * B \<le> 100 * Q / 2 ^ 50" using 1 2 4 5 by simp
  with 3 have "\<bar>p - q * 100\<bar> \<le> 100 * \<bar>q\<bar> / 2 ^ 50" by (simp add: Q_def)
  then show ?thesis by (simp add: p_def q'_def q_def abs_mult)
qed

lemma zone_names:
  "zone zone_rest = ''Rest''" "zone zone_1 = ''Zone 1''" "zone zone_2 = ''Zone 2''"
  "zone zone_3 = ''Zone 3''" "zone zone_4 = ''Zone 4''" "zone zone_5 = ''Zone 5''"
  by (simp_all add: zone_rest_def zone_1_def zone_2_def zone_3_def zone_4_def zone_5_def)

text \<open>
  C1: for a non-zero maximum heart rate the classifier computes the percentage as the heart
  rate divided by the maximum heart rate, times 100 (each operation rounded, so within a
  relative error of \<open>1 / 2 ^ 50\<close> of the exact value, and exactly that value when nothing
  is rounded), and returns the zone of a ladder of strict comparisons, first match first: Rest
  below 50, Zone 1 from 50 to below 60, Zone 2 from 60 to below 70, Zone 3 from 70 to below
  80, Zone 4 from 80 to below 90, Zone 5 from 90. A percentage of exactly 60 is Zone 2, not
  Zone 1.
\<close>

theorem get_intensity_zone_ladder:
  assumes "max_hr \<noteq> 0"
  shows "hr_percentage id heart_rate max_hr = Inr (heart_rate / max_hr * 100)
     \<and> (\<exists>p z. hr_percentage fl heart_rate max_hr = Inr p
           \<and> p = fl (fl (heart_rate / max_hr) * 100)
           \<and> (rounding fl \<longrightarrow>
                \<bar>p - heart_rate / max_hr * 100\<bar> \<le> \<bar>heart_rate / max_hr * 100\<bar> / 2 ^ 50)
           \<and> get_intensity_zone fl heart_rate max_hr = Inr z
           \<and> (zone z = ''Rest'') = (p < 50)
           \<and> (zone z = ''Zone 1'') = (50 \<le> p \<and> p < 60)
           \<and> (zone z = ''Zone 2'') = (60 \<le> p \<and> p < 70)
           \<and> (zone z = ''Zone 3'') = (70 \<le> p \<and> p < 80)
           \<and> (zone z = ''Zone 4'') = (80 \<le> p \<and> p < 90)
           \<and> (zone z = ''Zone 5'') = (90 \<le> p)
           \<and> (p = 60 \<longrightarrow> zone z = ''Zone 2'' \<and> zone z \<noteq> ''Zone 1''))"
  using assms hr_percentage_close [OF _ assms, of fl heart_rate]
  by (simp add: get_intensity_zone_def hr_percentage_ok zone_names)

theorem get_intensity_zone_ladder_witness:
  "(5::rat) \<noteq> 0 \<and> rounding id \<and> hr_percentage id 3 5 = Inr 60
     \<and> get_intensity_zone id 3 5 = Inr zone_2
     \<and> zone zone_2 = ''Zone 2'' \<and> zone zone_2 \<noteq> ''Zone 1''"
  using get_intensity_zone_ladder [where max_hr = 5 and heart_rate = 3 and fl = id]
  by (simp add: hr_percentage_ok get_intensity_zone_def zone_names rounding_id)

lemma distinct_intensity_zones: "distinct intensity_zones"
  by (simp add: intensity_zones_def zone_rest_def zone_1_def zone_2_def zone_3_def zone_4_def zone_5_def)

lemma less_6: "(i::nat) < 6 \<longleftrightarrow> i = 0 \<or> i = 1 \<or> i = 2 \<or> i = 3 \<or> i = 4 \<or> i = 5"
  by arith

lemma interval_nth:
  "in_interval (spec_zone_intervals ! 0) p = (0 \<le> p \<and> p < 50)"
  "in_interval (spec_zone_intervals ! Suc 0) p = (50 \<le> p \<and> p < 60)"
  "in_interval (spec_zone_intervals ! 2) p = (60 \<le> p \<and> p < 70)"
  "in_interval (spec_zone_intervals ! 3) p = (70 \<le> p \<and> p < 80)"
  "in_interval (spec_zone_intervals ! 4) p = (80 \<le> p \<and> p < 90)"
  "in_interval (spec_zone_intervals ! 5) p = (90 \<le> p)"
  by (simp_all add: spec_zone_intervals_def)

lemma interval_covers:
  assumes "0 \<le> p"
  shows "\<exists>i. i < 6 \<and> in_interval (spec_zone_intervals ! i) p"
proof -
  consider "p < 50" | "50 \<le> p" "p < 60" | "60 \<le> p" "p < 70" | "70 \<le> p" "p < 80"
    | "80 \<le> p" "p < 90" | "90 \<le> p"
    by linarith
  then show ?thesis
  proof cases
    case 1
    with assms have "(0::nat) < 6 \<and> in_interval (spec_zone_intervals ! 0) p"
      by (simp add: interval_nth)
    then show ?thesis ..
  next
    case 2
    then have "Suc 0 < 6 \<and> in_interval (spec_zone_intervals ! Suc 0) p"
      by (simp add: interval_nth)
    then show ?thesis ..
  next
    case 3
    then have "(2::nat) < 6 \<and> in_interval (spec_zone_intervals ! 2) p"
      by (simp add: interval_nth)
    then show ?thesis ..
  next
    case 4
    then have "(3::nat) < 6 \<and> in_interval (spec_zone_intervals ! 3) p"
      by (simp add: interval_nth)
    then show ?thesis ..
  next
    case 5
    then have "(4::nat) < 6 \<and> in_interval (spec_zone_intervals ! 4) p"
      by (simp add: interval_nth)
    then show ?thesis ..
  next
    case 6
    then have "(5::nat) < 6 \<and> in_interval (spec_zone_intervals ! 5) p"
      by (simp add: interval_nth)
    then show ?thesis ..
  qed
qed

lemma interval_disjoint:
  "i < 6 \<Longrightarrow> j < 6 \<Longrightarrow> in_interval (spec_zone_intervals ! i) p
     \<Longrightarrow> in_interval (spec_zone_intervals ! j) p \<Longrightarrow> i = j"
  unfolding less_6 spec_zone_intervals_def
  by (elim disjE; simp)

lemma interval_partition: "0 \<le> p \<Longrightarrow> \<exists>!i. i < 6 \<and> in_interval (spec_zone_intervals ! i) p"
  using interval_covers [of p] interval_disjoint [of _ _ p] by blast

lemma zone_of_interval:
  assumes "hr_percentage fl heart_rate max_hr = Inr p" "0 \<le> p" "i < 6"
  shows "in_interval (spec_zone_intervals ! i) p
           = (get_intensity_zone fl heart_rate max_hr = Inr (intensity_zones ! i))"
  using assms distinct_intensity_zones unfolding less_6
  by (auto simp: get_intensity_zone_def spec_zone_intervals_def intensity_zones_def)

lemma returns_a_zone:
  assumes "0 < max_hr"
  shows "\<exists>!z. z \<in> set intensity_zones \<and> get_intensity_zone fl heart_rate max_hr = Inr z"
  using assms by (auto simp: get_intensity_zone_def hr_percentage_ok intensity_zones_def)

text \<open>
  C2: for every heart rate and every positive maximum heart rate the classifier returns
  exactly one of the six fixed zones, which are pairwise different; the six intervals of the
  table partition the percentages from 0 on (each lies in exactly one interval), and a
  computed percentage lies in the interval number \<open>i\<close> exactly when the classifier returns the
  zone number \<open>i\<close>.
\<close>

theorem intensity_zones_partition:
  "length intensity_zones = 6 \<and> distinct intensity_zones
     \<and> (0 < max_hr \<longrightarrow>
          (\<exists>!z. z \<in> set intensity_zones \<and> get_intensity_zone fl heart_rate max_hr = Inr z))
     \<and> (0 \<le> p \<longrightarrow> (\<exists>!i. i < 6 \<and> in_interval (spec_zone_intervals ! i) p))
     \<and> (hr_percentage fl heart_rate max_hr = Inr p \<and> 0 \<le> p \<and> i < 6 \<longrightarrow>
          in_interval (spec_zone_intervals ! i) p
            = (get_intensity_zone fl heart_rate max_hr = Inr (intensity_zones ! i)))"
  using distinct_intensity_zones returns_a_zone [of max_hr fl heart_rate] interval_partition [of p]
    zone_of_interval [of fl heart_rate max_hr p i]
  by (simp add: intensity_zones_def)

theorem intensity_zones_partition_witness:
  "(0::rat) < 5 \<and> (0::rat) \<le> 60 \<and> hr_percentage id 3 5 = Inr 60 \<and> (2::nat) < 6
     \<and> in_interval (spec_zone_intervals ! 2) 60
     \<and> get_intensity_zone id 3 5 = Inr (intensity_zones ! 2)
     \<and> intensity_zones ! 2 \<in> set intensity_zones"
  using intensity_zones_partition [where max_hr = 5 and fl = id and heart_rate = 3 and p = 60 and i = 2]
  by (simp add: hr_percentage_ok interval_nth get_intensity_zone_def intensity_zones_def)

text \<open>
  C9: with a non-zero maximum heart rate the classifier does not fail, and every computed
  percentage below 50, the negative ones included, gives the Rest zone; the percentage is
  negative when the heart rate and the maximum heart rate have opposite signs, as for a
  negative heart rate or for the maximum heart rate of an age above 220.
\<close>

theorem negative_percentage_is_rest:
  assumes "max_hr \<noteq> 0"
  shows "\<exists>p. hr_percentage fl heart_rate max_hr = Inr p
           \<and> (p < 50 \<longrightarrow> get_intensity_zone fl heart_rate max_hr = Inr zone_rest)
           \<and> (p < 0 \<longrightarrow> get_intensity_zone fl heart_rate max_hr = Inr zone_rest)
           \<and> (rounding fl \<and> (heart_rate < 0 \<and> 0 < max_hr \<or> 0 < heart_rate \<and> max_hr < 0) \<longrightarrow> p < 0)
           \<and> zone zone_rest = ''Rest''"
proof -
  let ?p = "fl (fl (heart_rate / max_hr) * 100)"
  have p: "hr_percentage fl heart_rate max_hr = Inr ?p"
    using assms by (rule hr_percentage_ok)
  have rest: "get_intensity_zone fl heart_rate max_hr = Inr zone_rest" if "?p < 50"
    using that by (simp add: get_intensity_zone_def p)
  have neg: "?p < 0"
    if "rounding fl" "heart_rate < 0 \<and> 0 < max_hr \<or> 0 < heart_rate \<and> max_hr < 0"
  proof -
    from that(2) have "heart_rate / max_hr < 0"
      by (auto simp: divide_neg_pos divide_pos_neg)
    then have "fl (heart_rate / max_hr) < 0" using that(1) by (simp add: rounding_neg)
    then have "fl (heart_rate / max_hr) * 100 < 0" by simp
    then show ?thesis using that(1) by (simp add: rounding_neg)
  qed
  show ?thesis using p rest neg by (auto simp: zone_names)
qed

theorem negative_percentage_is_rest_witness:
  "(120::rat) \<noteq> 0 \<and> (- 60 :: rat) < 0 \<and> (0::rat) < 120
     \<and> hr_percentage id (- 60) 120 = Inr (- 50) \<and> (- 50 :: rat) < 0 \<and> (- 50 :: rat) < 50
     \<and> get_intensity_zone id (- 60) 120 = Inr zone_rest
     \<and> rounding id
     \<and> calculate_max_heart_rate 230 = - 10
     \<and> hr_percentage id 60 (of_int (calculate_max_heart_rate 230)) = Inr (- 600)
     \<and> get_intensity_zone id 60 (of_int (calculate_max_heart_rate 230)) = Inr zone_rest"
  using negative_percentage_is_rest [where max_hr = 120 and fl = id and heart_rate = "- 60"]
    negative_percentage_is_rest
      [where max_hr = "of_int (calculate_max_heart_rate 230)" and fl = id and heart_rate = 60]
  by (simp add: hr_percentage_ok get_intensity_zone_def calculate_max_heart_rate_def rounding_id)

section \<open>Maximum heart rate\<close>

text \<open>
  C6: for every integer age, the estimated maximum heart rate is 220 minus the age; for the
  age 25 it is 195.
\<close>

theorem calculate_max_heart_rate_value:
  "calculate_max_heart_rate age = 220 - age \<and> calculate_max_heart_rate 25 = 195"
  by (simp add: calculate_max_heart_rate_def)

text \<open>
  C7, as the code has it: the estimate is not guarded and never fails. For an age of at most
  0 it returns a value of at least 220, and for an age of at least 220 a value of at most 0.
\<close>

theorem max_heart_rate_not_guarded:
  "(age \<le> 0 \<longrightarrow> 220 \<le> calculate_max_heart_rate age)
     \<and> (220 \<le> age \<longrightarrow> calculate_max_heart_rate age \<le> 0)"
  by (simp add: calculate_max_heart_rate_def)

theorem max_heart_rate_not_guarded_witness:
  "(0::int) \<le> 0 \<and> 220 \<le> calculate_max_heart_rate 0
     \<and> (220::int) \<le> 220 \<and> calculate_max_heart_rate 220 \<le> 0"
  using max_heart_rate_not_guarded [where age = 0] max_heart_rate_not_guarded [where age = 220]
  by simp

text \<open>C7 as stated fails: the estimate for the age 0 is 220, not an error.\<close>

theorem max_heart_rate_at_zero:
  "calculate_max_heart_rate 0 = 220"
  by (simp add: calculate_max_heart_rate_def)

section \<open>Body mass index\<close>

lemma bmi_error_aux:
  fixes u a x b c w :: rat
  assumes u0: "0 \<le> u" and u1: "u \<le> 1 / 100"
    and ax: "\<bar>a - x\<bar> \<le> u * \<bar>x\<bar>"
    and bt: "\<bar>b - a\<^sup>2\<bar> \<le> u * a\<^sup>2"
    and cq: "\<bar>c - w / b\<bar> \<le> u * \<bar>w / b\<bar>"
    and x0: "x \<noteq> 0"
  shows "0 < b \<and> \<bar>c - w / x\<^sup>2\<bar> \<le> 8 * u * \<bar>w / x\<^sup>2\<bar>"
proof -
  define s where "s = x\<^sup>2"
  have s: "0 < s" using x0 by (simp add: s_def)
  have uu: "u * u \<le> u / 100"
    using mult_left_mono [OF u1 u0] by simp
  have a_hi: "\<bar>a\<bar> \<le> (1 + u) * \<bar>x\<bar>" and a_lo: "(1 - u) * \<bar>x\<bar> \<le> \<bar>a\<bar>"
    using ax by (simp_all add: algebra_simps)
  have lo0: "0 \<le> (1 - u) * \<bar>x\<bar>" using u1 by simp
  have "\<bar>a\<bar>\<^sup>2 \<le> ((1 + u) * \<bar>x\<bar>)\<^sup>2"
    by (rule power_mono [OF a_hi]) simp
  then have t_hi': "a\<^sup>2 \<le> (1 + u)\<^sup>2 * s" by (simp add: s_def power_mult_distrib)
  have "((1 - u) * \<bar>x\<bar>)\<^sup>2 \<le> \<bar>a\<bar>\<^sup>2"
    by (rule power_mono [OF a_lo lo0])
  then have t_lo': "(1 - u)\<^sup>2 * s \<le> a\<^sup>2" by (simp add: s_def power_mult_distrib)
  have "(1 + u)\<^sup>2 \<le> 1 + 3 * u" using uu u0 by (simp add: power2_eq_square algebra_simps)
  then have "(1 + u)\<^sup>2 * s \<le> (1 + 3 * u) * s" using s by (simp add: mult_right_mono)
  with t_hi' have t_hi: "a\<^sup>2 \<le> (1 + 3 * u) * s" by linarith
  have "1 - 2 * u \<le> (1 - u)\<^sup>2" using u0 by (simp add: power2_eq_square algebra_simps)
  then have "(1 - 2 * u) * s \<le> (1 - u)\<^sup>2 * s" using s by (simp add: mult_right_mono)
  with t_lo' have t_lo: "(1 - 2 * u) * s \<le> a\<^sup>2" by linarith
  have us: "0 \<le> u * s" using u0 s by simp
  have uus: "u * u * s \<le> u * s / 100"
    using mult_right_mono [OF uu, of s] s by simp
  have "u * a\<^sup>2 \<le> u * ((1 + 3 * u) * s)" using t_hi u0 by (rule mult_left_mono)
  moreover have "u * ((1 + 3 * u) * s) = u * s + 3 * (u * u * s)" by (simp add: algebra_simps)
  ultimately have ut: "u * a\<^sup>2 \<le> 2 * (u * s)" using uus us by linarith
  have t_hi2: "a\<^sup>2 \<le> s + 3 * (u * s)" using t_hi by (simp add: algebra_simps)
  have t_lo2: "s - 2 * (u * s) \<le> a\<^sup>2" using t_lo by (simp add: algebra_simps)
  have b_hi: "b \<le> s + 5 * (u * s)" and b_lo: "s - 4 * (u * s) \<le> b"
    using bt ut t_hi2 t_lo2 by linarith+
  have us_small: "u * s \<le> s / 100"
    using mult_right_mono [OF u1, of s] s by simp
  have b34: "3 / 4 * s \<le> b" using b_lo us_small s by linarith
  then have b: "0 < b" using s by linarith
  have sb: "\<bar>s - b\<bar> \<le> 5 * (u * s)" using b_hi b_lo us by linarith
  have key: "u * s + \<bar>s - b\<bar> \<le> 8 * u * b"
  proof -
    have "u * (3 / 4 * s) \<le> u * b" using b34 u0 by (rule mult_left_mono)
    then have "3 / 4 * (u * s) \<le> u * b" by (simp add: algebra_simps)
    then show ?thesis using sb us by linarith
  qed
  define r where "r = w / s"
  have q: "w / b = r * (s / b)" using s b by (simp add: r_def)
  have d: "w / b - r = r * ((s - b) / b)" using s b by (simp add: r_def field_simps)
  have aq: "\<bar>w / b\<bar> = \<bar>r\<bar> * (s / b)" using s b by (simp add: q abs_mult)
  have ad: "\<bar>w / b - r\<bar> = \<bar>r\<bar> * (\<bar>s - b\<bar> / b)" using b by (simp add: d abs_mult)
  have "\<bar>c - r\<bar> \<le> \<bar>c - w / b\<bar> + \<bar>w / b - r\<bar>" by linarith
  also have "\<dots> \<le> u * \<bar>w / b\<bar> + \<bar>w / b - r\<bar>" using cq by simp
  also have "\<dots> = \<bar>r\<bar> * ((u * s + \<bar>s - b\<bar>) / b)"
    unfolding aq ad by (simp add: algebra_simps add_divide_distrib)
  also have "\<dots> \<le> \<bar>r\<bar> * (8 * u)"
  proof (rule mult_left_mono)
    show "(u * s + \<bar>s - b\<bar>) / b \<le> 8 * u" using key b by (simp add: field_simps)
  qed simp
  finally show ?thesis using b by (simp add: r_def s_def algebra_simps)
qed

lemma bmi_close:
  assumes r: "rounding fl" and h: "height \<noteq> 0"
  shows "\<exists>b. bmi fl weight height = Inr b
           \<and> \<bar>b - weight / (height / 100)\<^sup>2\<bar> \<le> \<bar>weight / (height / 100)\<^sup>2\<bar> / 2 ^ 49"
proof -
  define u :: rat where "u = 1 / 2 ^ 52"
  define a where "a = fl (height / 100)"
  define b where "b = fl (a\<^sup>2)"
  define c where "c = fl (weight / b)"
  have fl: "\<bar>fl x - x\<bar> \<le> u * \<bar>x\<bar>" for x
    using r by (simp add: rounding_def u_def)
  have "0 < b \<and> \<bar>c - weight / (height / 100)\<^sup>2\<bar> \<le> 8 * u * \<bar>weight / (height / 100)\<^sup>2\<bar>"
  proof (rule bmi_error_aux)
    show "0 \<le> u" "u \<le> 1 / 100" by (simp_all add: u_def)
    show "\<bar>a - height / 100\<bar> \<le> u * \<bar>height / 100\<bar>" unfolding a_def by (rule fl)
    show "\<bar>b - a\<^sup>2\<bar> \<le> u * a\<^sup>2" using fl [of "a\<^sup>2"] by (simp add: b_def)
    show "\<bar>c - weight / b\<bar> \<le> u * \<bar>weight / b\<bar>" unfolding c_def by (rule fl)
    show "height / 100 \<noteq> 0" using h by simp
  qed
  moreover have "8 * u = 1 / 2 ^ 49" by (simp add: u_def)
  moreover have "bmi fl weight height = Inr c" if "0 < b"
    using that by (simp add: bmi_def truediv_def a_def b_def c_def)
  ultimately show ?thesis by simp
qed

lemma bmi_zero_height: "fl 0 = 0 \<Longrightarrow> bmi fl weight 0 = Inl ZeroDivisionError"
  by (simp add: bmi_def truediv_def)

lemma bmi_nonzero_height:
  assumes rn: "rounds_normal fl" and h0: "height \<noteq> 0" and hx: "exact_int height"
  shows "bmi fl weight (of_int height)
           = Inr (fl (weight / fl ((fl (of_int height / 100))\<^sup>2)))"
proof -
  define x :: rat where "x = of_int height / 100"
  define a where "a = fl x"
  have "1 \<le> \<bar>height\<bar>" using h0 by linarith
  then have "(1::rat) \<le> of_int \<bar>height\<bar>" by linarith
  then have x_lo: "1 / 100 \<le> \<bar>x\<bar>" by (simp add: x_def)
  have "\<bar>height\<bar> \<le> 2 ^ 53" using hx by (simp add: exact_int_def)
  then have "(of_int \<bar>height\<bar> :: rat) \<le> of_int (2 ^ 53)" by (simp only: of_int_le_iff)
  then have x_hi: "\<bar>x\<bar> \<le> 2 ^ 53 / 100" by (simp add: x_def)
  have a: "1 / 100 / 2 \<le> \<bar>a\<bar> \<and> \<bar>a\<bar> \<le> 2 * (2 ^ 53 / 100)"
    unfolding a_def by (rule rounds_normal_half [OF rn x_lo x_hi]) simp_all
  then have a_lo: "1 / 200 \<le> \<bar>a\<bar>" and a_hi: "\<bar>a\<bar> \<le> 2 ^ 48" by simp_all
  have "(1 / 200)\<^sup>2 \<le> \<bar>a\<bar>\<^sup>2" by (rule power_mono [OF a_lo]) simp
  then have s_lo: "1 / 40000 \<le> \<bar>a\<^sup>2\<bar>" by (simp add: power2_eq_square)
  have "\<bar>a\<bar>\<^sup>2 \<le> (2 ^ 48)\<^sup>2" by (rule power_mono [OF a_hi]) simp
  then have s_hi: "\<bar>a\<^sup>2\<bar> \<le> 2 ^ 96" by simp
  have "1 / 40000 / 2 \<le> \<bar>fl (a\<^sup>2)\<bar> \<and> \<bar>fl (a\<^sup>2)\<bar> \<le> 2 * 2 ^ 96"
    by (rule rounds_normal_half [OF rn s_lo s_hi]) simp_all
  then have "fl (a\<^sup>2) \<noteq> 0" by auto
  then show ?thesis by (simp add: bmi_def truediv_def a_def x_def)
qed

lemma bmi_example:
  assumes "rounding fl"
  shows "\<exists>b. bmi fl 70 170 = Inr b \<and> \<bar>b - 2422 / 100\<bar> < 5 / 1000 \<and> bmi_status b = ''Normal''"
proof -
  from bmi_close [OF assms, of 170 70] obtain b where b: "bmi fl 70 170 = Inr b"
    and e: "\<bar>b - 70 / (170 / 100)\<^sup>2\<bar> \<le> \<bar>70 / (170 / 100)\<^sup>2\<bar> / 2 ^ 49"
    by auto
  have v: "(70::rat) / (170 / 100)\<^sup>2 = 7000 / 289" by (simp add: power2_eq_square)
  have "\<bar>b - 7000 / 289\<bar> \<le> 1 / 1000" using e unfolding v by simp
  then have "\<bar>b - 2422 / 100\<bar> < 5 / 1000" "185 / 10 \<le> b" "b \<le> 249 / 10" by linarith+
  then show ?thesis using b by (simp add: bmi_status_def)
qed

section \<open>The analysis as a whole\<close>

lemma analyze_workout_runs:
  assumes "rounding fl" "age \<noteq> 220" "height \<noteq> 0"
  shows "\<exists>z b. get_intensity_zone fl (of_int heart_rate) (of_int (calculate_max_heart_rate age)) = Inr z
           \<and> bmi fl (of_int weight) (of_int height) = Inr b
           \<and> analyze_workout fl predict gender age height weight duration heart_rate body_temp
               = Inr \<lparr>rep_prediction = predict (input_data gender age height weight duration heart_rate body_temp),
                      rep_cal_per_min = cal_per_min fl (predict (input_data gender age height weight duration heart_rate body_temp)) duration,
                      rep_intensity_info = z, rep_bmi = b, rep_bmi_status = bmi_status b,
                      rep_recommendation = recommend (cal_per_min fl (predict (input_data gender age height weight duration heart_rate body_temp)) duration)\<rparr>"
proof -
  have "(of_int (calculate_max_heart_rate age) :: rat) \<noteq> 0"
    using assms(2) by (simp add: calculate_max_heart_rate_def)
  then obtain z where z: "get_intensity_zone fl (of_int heart_rate) (of_int (calculate_max_heart_rate age)) = Inr z"
    by (simp add: get_intensity_zone_def hr_percentage_ok)
  have "(of_int height :: rat) \<noteq> 0" using assms(3) by simp
  from bmi_close [OF assms(1) this] obtain b where b: "bmi fl (of_int weight) (of_int height) = Inr b"
    by blast
  show ?thesis using z b by (simp add: analyze_workout_def Let_def)
qed

lemma analyze_workout_report:
  assumes "get_intensity_zone fl (of_int heart_rate) (of_int (calculate_max_heart_rate age)) = Inr z"
    and "bmi fl (of_int weight) (of_int height) = Inr b"
  shows "analyze_workout fl predict gender age height weight duration heart_rate body_temp
           = Inr \<lparr>rep_prediction = predict (input_data gender age height weight duration heart_rate body_temp),
                  rep_cal_per_min = cal_per_min fl (predict (input_data gender age height weight duration heart_rate body_temp)) duration,
                  rep_intensity_info = z, rep_bmi = b, rep_bmi_status = bmi_status b,
                  rep_recommendation = recommend (cal_per_min fl (predict (input_data gender age height weight duration heart_rate body_temp)) duration)\<rparr>"
  using assms by (simp add: analyze_workout_def Let_def)

lemma analyze_workout_prediction:
  assumes "analyze_workout fl predict gender age height weight duration heart_rate body_temp = Inr r"
  shows "rep_prediction r = predict (input_data gender age height weight duration heart_rate body_temp)"
  using assms by (auto simp: analyze_workout_def Let_def split: sum.splits)

lemma analyze_workout_runs_normal:
  assumes "rounds_normal fl" "age \<noteq> 220" "height \<noteq> 0" "exact_int height"
  shows "\<exists>r. analyze_workout fl predict gender age height weight duration heart_rate body_temp = Inr r"
proof -
  have "(of_int (calculate_max_heart_rate age) :: rat) \<noteq> 0"
    using assms(2) by (simp add: calculate_max_heart_rate_def)
  then obtain z where z: "get_intensity_zone fl (of_int heart_rate) (of_int (calculate_max_heart_rate age)) = Inr z"
    by (simp add: get_intensity_zone_def hr_percentage_ok)
  from bmi_nonzero_height [OF assms(1,3,4)] obtain b where b: "bmi fl (of_int weight) (of_int height) = Inr b"
    by blast
  show ?thesis using analyze_workout_report [OF z b] by blast
qed

lemma analyze_workout_example:
  "analyze_workout id (fixed_model 300) ''Male'' 25 170 70 30 140 (75 / 2)
     = Inr \<lparr>rep_prediction = 300, rep_cal_per_min = Finite 10, rep_intensity_info = zone_3,
            rep_bmi = 7000 / 289, rep_bmi_status = ''Normal'',
            rep_recommendation = recommend (Finite 10)\<rparr>"
  by (simp add: analyze_workout_def Let_def fixed_model_def cal_per_min_def np_truediv_def
      get_intensity_zone_def hr_percentage_ok calculate_max_heart_rate_def
      bmi_def truediv_def bmi_status_def power2_eq_square)

text \<open>
  C5: the body mass index is the weight divided by the square of the height over 100,
  exactly so when nothing is rounded and within a relative error of \<open>1 / 2 ^ 49\<close> under
  rounding; its status is Underweight below 18.5, Normal from 18.5 to 24.9 with both bounds
  included, and Overweight above. For a height of 170 and a weight of 70 the analysis gives
  an index that rounds to 24.22 and the status Normal.
\<close>

theorem bmi_and_status:
  "(height \<noteq> 0 \<longrightarrow> bmi id weight height = Inr (weight / (height / 100)\<^sup>2))
     \<and> (rounding fl \<and> height \<noteq> 0 \<longrightarrow>
          (\<exists>b. bmi fl weight height = Inr b
             \<and> \<bar>b - weight / (height / 100)\<^sup>2\<bar> \<le> \<bar>weight / (height / 100)\<^sup>2\<bar> / 2 ^ 49))
     \<and> (bmi_status b = ''Underweight'') = (b < 185 / 10)
     \<and> (bmi_status b = ''Normal'') = (185 / 10 \<le> b \<and> b \<le> 249 / 10)
     \<and> (bmi_status b = ''Overweight'') = (249 / 10 < b)
     \<and> bmi_status (185 / 10) = ''Normal'' \<and> bmi_status (249 / 10) = ''Normal''
     \<and> (rounding fl \<longrightarrow>
          (\<exists>r. analyze_workout fl (fixed_model 300) gender 25 170 70 30 140 body_temp = Inr r
             \<and> \<bar>rep_bmi r - 2422 / 100\<bar> < 5 / 1000 \<and> rep_bmi_status r = ''Normal''))"
proof -
  have exact: "bmi id weight height = Inr (weight / (height / 100)\<^sup>2)" if "height \<noteq> 0"
    using that by (simp add: bmi_def truediv_def)
  have status: "(bmi_status b = ''Underweight'') = (b < 185 / 10)"
    "(bmi_status b = ''Normal'') = (185 / 10 \<le> b \<and> b \<le> 249 / 10)"
    "(bmi_status b = ''Overweight'') = (249 / 10 < b)"
    "bmi_status (185 / 10) = ''Normal''" "bmi_status (249 / 10) = ''Normal''"
    by (auto simp: bmi_status_def)
  have run: "\<exists>r. analyze_workout fl (fixed_model 300) gender 25 170 70 30 140 body_temp = Inr r
             \<and> \<bar>rep_bmi r - 2422 / 100\<bar> < 5 / 1000 \<and> rep_bmi_status r = ''Normal''"
    if r: "rounding fl"
  proof -
    from bmi_example [OF r] obtain b where b: "bmi fl 70 170 = Inr b"
      "\<bar>b - 2422 / 100\<bar> < 5 / 1000" "bmi_status b = ''Normal''" by blast
    from analyze_workout_runs [OF r, of 25 170 140 70 "fixed_model 300" gender 30 body_temp]
    show ?thesis using b by auto
  qed
  show ?thesis using exact bmi_close status run by blast
qed

theorem bmi_and_status_witness:
  "(170::rat) \<noteq> 0 \<and> rounding id \<and> bmi id 70 170 = Inr (7000 / 289)
     \<and> \<bar>(7000 / 289 :: rat) - 2422 / 100\<bar> < 5 / 1000
     \<and> bmi_status (7000 / 289) = ''Normal''
     \<and> analyze_workout id (fixed_model 300) ''Male'' 25 170 70 30 140 (75 / 2)
         = Inr \<lparr>rep_prediction = 300, rep_cal_per_min = Finite 10, rep_intensity_info = zone_3,
            rep_bmi = 7000 / 289, rep_bmi_status = ''Normal'',
            rep_recommendation = recommend (Finite 10)\<rparr>"
  using bmi_and_status [where height = 170 and weight = 70 and fl = id and b = "7000 / 289"
      and gender = "''Male''" and body_temp = "75 / 2"]
  by (simp add: rounding_id analyze_workout_example bmi_def truediv_def bmi_status_def power2_eq_square)

text \<open>
  C4: the title of the recommendation follows strict comparisons of the burn rate from the
  top: Excellent above 10, Good above 7 and up to 10, Improvement up to 7 (an infinite rate
  is Excellent or Improvement by its sign, NaN is Improvement). A prediction of 300 over 30
  minutes is a rate of exactly 10, which is Good.
\<close>

theorem recommend_tiers:
  "(rec_title (recommend (Finite v)) = ''Excellent'') = (10 < v)
     \<and> (rec_title (recommend (Finite v)) = ''Good'') = (7 < v \<and> v \<le> 10)
     \<and> (rec_title (recommend (Finite v)) = ''Improvement'') = (v \<le> 7)
     \<and> rec_title (recommend PosInf) = ''Excellent''
     \<and> rec_title (recommend NegInf) = ''Improvement''
     \<and> rec_title (recommend NaN) = ''Improvement''
     \<and> (fl 10 = 10 \<longrightarrow> cal_per_min fl 300 30 = Finite 10
           \<and> rec_title (recommend (cal_per_min fl 300 30)) = ''Good'')
     \<and> (rounding fl \<and> fl 10 = 10 \<longrightarrow>
          (\<exists>r. analyze_workout fl (fixed_model 300) gender 25 170 70 30 140 body_temp = Inr r
             \<and> rep_cal_per_min r = Finite 10 \<and> rec_title (rep_recommendation r) = ''Good''))"
proof -
  have tiers: "(rec_title (recommend (Finite v)) = ''Excellent'') = (10 < v)"
    "(rec_title (recommend (Finite v)) = ''Good'') = (7 < v \<and> v \<le> 10)"
    "(rec_title (recommend (Finite v)) = ''Improvement'') = (v \<le> 7)"
    "rec_title (recommend PosInf) = ''Excellent''"
    "rec_title (recommend NegInf) = ''Improvement''"
    "rec_title (recommend NaN) = ''Improvement''"
    by (auto simp: recommend_def)
  have ten: "cal_per_min fl 300 30 = Finite 10" if "fl 10 = 10"
    using that by (simp add: cal_per_min_def np_truediv_def)
  have good: "rec_title (recommend (Finite 10)) = ''Good''"
    by (simp add: recommend_def)
  have run: "\<exists>r. analyze_workout fl (fixed_model 300) gender 25 170 70 30 140 body_temp = Inr r
             \<and> rep_cal_per_min r = Finite 10 \<and> rec_title (rep_recommendation r) = ''Good''"
    if "rounding fl" "fl 10 = 10"
    using analyze_workout_runs [OF that(1), of 25 170 140 70 "fixed_model 300" gender 30 body_temp]
      ten [OF that(2)] good
    by (auto simp: fixed_model_def)
  show ?thesis using tiers ten good run by simp
qed

theorem recommend_tiers_witness:
  "id (10::rat) = 10 \<and> rounding id \<and> cal_per_min id 300 30 = Finite 10
     \<and> rec_title (recommend (cal_per_min id 300 30)) = ''Good''
     \<and> analyze_workout id (fixed_model 300) ''Male'' 25 170 70 30 140 (75 / 2)
         = Inr \<lparr>rep_prediction = 300, rep_cal_per_min = Finite 10, rep_intensity_info = zone_3,
            rep_bmi = 7000 / 289, rep_bmi_status = ''Normal'',
            rep_recommendation = recommend (Finite 10)\<rparr>"
  using recommend_tiers [where v = 10 and fl = id and gender = "''Male''" and body_temp = "75 / 2"]
  by (simp add: rounding_id analyze_workout_example)

text \<open>
  C3, as the code has it: nothing is rejected as invalid input. The classifier raises
  \<^verbatim>\<open>ZeroDivisionError\<close> for a maximum heart rate of 0, and the body mass index raises
  \<^verbatim>\<open>ZeroDivisionError\<close> for a height of 0. A duration of 0 gives a burn rate of NaN or an
  infinity and no error, a negative duration gives the rounded quotient, and a negative
  height gives the body mass index of the formula; this for integers that binary64 holds
  exactly.
\<close>

theorem division_by_zero_only:
  "get_intensity_zone fl heart_rate 0 = Inl ZeroDivisionError
     \<and> (fl 0 = 0 \<and> exact_int weight \<longrightarrow> bmi fl (of_int weight) 0 = Inl ZeroDivisionError)
     \<and> cal_per_min fl prediction 0
         = (if prediction = 0 then NaN else if 0 < prediction then PosInf else NegInf)
     \<and> (duration < 0 \<and> exact_int duration \<longrightarrow>
          cal_per_min fl prediction duration = Finite (fl (prediction / of_int duration)))
     \<and> (rounds_normal fl \<and> height < 0 \<and> exact_int height \<and> exact_int weight \<longrightarrow>
          bmi fl (of_int weight) (of_int height)
            = Inr (fl (of_int weight / fl ((fl (of_int height / 100))\<^sup>2))))"
proof -
  have "get_intensity_zone fl heart_rate 0 = Inl ZeroDivisionError"
    by (simp add: get_intensity_zone_def hr_percentage_def truediv_def)
  moreover have "bmi fl (of_int weight) (of_int height)
            = Inr (fl (of_int weight / fl ((fl (of_int height / 100))\<^sup>2)))"
    if "rounds_normal fl" "height < 0" "exact_int height"
    using that by (intro bmi_nonzero_height) simp_all
  ultimately show ?thesis
    by (simp add: bmi_zero_height cal_per_min_def np_truediv_def)
qed

theorem division_by_zero_only_witness:
  "get_intensity_zone id 100 0 = Inl ZeroDivisionError
     \<and> id (0::rat) = 0 \<and> exact_int 70 \<and> bmi id (of_int 70) 0 = Inl ZeroDivisionError
     \<and> cal_per_min id 300 0 = PosInf
     \<and> (- 30 :: int) < 0 \<and> exact_int (- 30) \<and> cal_per_min id 300 (- 30) = Finite (- 10)
     \<and> rounds_normal id \<and> (- 100 :: int) < 0 \<and> exact_int (- 100)
     \<and> bmi id (of_int 70) (of_int (- 100)) = Inr 70"
  using division_by_zero_only [where fl = id and heart_rate = 100 and weight = 70
      and height = "- 100" and prediction = 300 and duration = "- 30"]
  by (simp add: rounds_normal_id exact_int_def get_intensity_zone_def hr_percentage_def bmi_def
      truediv_def power2_eq_square cal_per_min_def np_truediv_def)

text \<open>
  C3 as stated fails: a run with a prediction of 0 and a duration of 0 returns a report whose
  burn rate is NaN, a run with a duration of - 30 returns a report with the rate - 10, and a
  height of - 100 gives a body mass index.
\<close>

theorem no_input_validation_counterexample:
  "analyze_workout id (fixed_model 0) ''Male'' 20 100 70 0 100 37
     = Inr \<lparr>rep_prediction = 0, rep_cal_per_min = NaN, rep_intensity_info = zone_1,
            rep_bmi = 70, rep_bmi_status = ''Overweight'',
            rep_recommendation = recommend NaN\<rparr>
   \<and> analyze_workout id (fixed_model 300) ''Male'' 20 100 70 (- 30) 100 37
     = Inr \<lparr>rep_prediction = 300, rep_cal_per_min = Finite (- 10), rep_intensity_info = zone_1,
            rep_bmi = 70, rep_bmi_status = ''Overweight'',
            rep_recommendation = recommend (Finite (- 10))\<rparr>
   \<and> rec_title (recommend NaN) = ''Improvement''
   \<and> rec_title (recommend (Finite (- 10))) = ''Improvement''
   \<and> bmi id 70 (- 100) = Inr 70"
  by (simp add: analyze_workout_def Let_def fixed_model_def cal_per_min_def np_truediv_def
      get_intensity_zone_def hr_percentage_ok calculate_max_heart_rate_def
      bmi_def truediv_def bmi_status_def power2_eq_square recommend_def)

text \<open>
  C10: the gender code is 1 for \<^verbatim>\<open>'Male'\<close> and 0 for \<^verbatim>\<open>'Female'\<close>, and never another
  value; the row handed to the model carries this code in its gender column beside the six
  other inputs, the prediction of a report is the model's value at exactly this row, a report
  is returned for an age other than 220 and a height other than 0, and the analysis depends
  on the model through its value at this row alone.
\<close>

theorem gender_encoding:
  "gender_encoded ''Male'' = 1 \<and> gender_encoded ''Female'' = 0
     \<and> (gender_encoded gender = 0 \<or> gender_encoded gender = 1)
     \<and> input_data gender age height weight duration heart_rate body_temp
         = \<lparr>Gender = (if gender = ''Male'' then 1 else 0), Age = age, Height = height,
            Weight = weight, Duration = duration, Heart_Rate = heart_rate, Body_Temp = body_temp\<rparr>
     \<and> (analyze_workout fl predict gender age height weight duration heart_rate body_temp = Inr r \<longrightarrow>
          rep_prediction r
            = predict \<lparr>Gender = (if gender = ''Male'' then 1 else 0), Age = age, Height = height,
                Weight = weight, Duration = duration, Heart_Rate = heart_rate, Body_Temp = body_temp\<rparr>)
     \<and> (rounds_normal fl \<and> age \<noteq> 220 \<and> height \<noteq> 0 \<and> exact_int age \<and> exact_int height
          \<and> exact_int weight \<and> exact_int duration \<and> exact_int heart_rate \<longrightarrow>
          (\<exists>r'. analyze_workout fl predict gender age height weight duration heart_rate body_temp = Inr r'
             \<and> rep_prediction r'
                 = predict \<lparr>Gender = (if gender = ''Male'' then 1 else 0), Age = age, Height = height,
                     Weight = weight, Duration = duration, Heart_Rate = heart_rate, Body_Temp = body_temp\<rparr>))
     \<and> (predict \<lparr>Gender = (if gender = ''Male'' then 1 else 0), Age = age, Height = height,
            Weight = weight, Duration = duration, Heart_Rate = heart_rate, Body_Temp = body_temp\<rparr>
          = predict' \<lparr>Gender = (if gender = ''Male'' then 1 else 0), Age = age, Height = height,
              Weight = weight, Duration = duration, Heart_Rate = heart_rate, Body_Temp = body_temp\<rparr> \<longrightarrow>
          analyze_workout fl predict gender age height weight duration heart_rate body_temp
            = analyze_workout fl predict' gender age height weight duration heart_rate body_temp)"
proof -
  let ?row = "\<lparr>Gender = (if gender = ''Male'' then 1 else 0), Age = age, Height = height,
            Weight = weight, Duration = duration, Heart_Rate = heart_rate, Body_Temp = body_temp\<rparr>"
  have row: "input_data gender age height weight duration heart_rate body_temp = ?row"
    by (simp add: input_data_def gender_encoded_def)
  have codes: "gender_encoded ''Male'' = 1" "gender_encoded ''Female'' = 0"
    "gender_encoded gender = 0 \<or> gender_encoded gender = 1"
    by (simp_all add: gender_encoded_def)
  have passed: "rep_prediction r = predict ?row"
    if "analyze_workout fl predict gender age height weight duration heart_rate body_temp = Inr r"
    for r
    using analyze_workout_prediction [OF that] by (simp only: row)
  have runs: "\<exists>r'. analyze_workout fl predict gender age height weight duration heart_rate body_temp = Inr r'
             \<and> rep_prediction r' = predict ?row"
    if "rounds_normal fl" "age \<noteq> 220" "height \<noteq> 0" "exact_int height"
    using analyze_workout_runs_normal [OF that] passed by blast
  have same: "analyze_workout fl predict gender age height weight duration heart_rate body_temp
            = analyze_workout fl predict' gender age height weight duration heart_rate body_temp"
    if "predict ?row = predict' ?row"
    using that by (simp add: analyze_workout_def row)
  show ?thesis using row codes passed runs same by blast
qed

theorem gender_encoding_witness:
  "rounds_normal id \<and> (25::int) \<noteq> 220 \<and> (170::int) \<noteq> 0 \<and> exact_int 25 \<and> exact_int 170
     \<and> exact_int 70 \<and> exact_int 30 \<and> exact_int 140
     \<and> analyze_workout id gender_column_model ''Male'' 25 170 70 30 140 (75 / 2)
         = Inr \<lparr>rep_prediction = 1, rep_cal_per_min = Finite (1 / 30), rep_intensity_info = zone_3,
                rep_bmi = 7000 / 289, rep_bmi_status = ''Normal'',
                rep_recommendation = recommend (Finite (1 / 30))\<rparr>
     \<and> gender_column_model \<lparr>Gender = 1, Age = 25, Height = 170, Weight = 70, Duration = 30,
          Heart_Rate = 140, Body_Temp = 75 / 2\<rparr> = 1
     \<and> analyze_workout id gender_column_model ''Female'' 25 170 70 30 140 (75 / 2)
         = Inr \<lparr>rep_prediction = 0, rep_cal_per_min = Finite 0, rep_intensity_info = zone_3,
                rep_bmi = 7000 / 289, rep_bmi_status = ''Normal'',
                rep_recommendation = recommend (Finite 0)\<rparr>
     \<and> gender_column_model \<lparr>Gender = 0, Age = 25, Height = 170, Weight = 70, Duration = 30,
          Heart_Rate = 140, Body_Temp = 75 / 2\<rparr>
         = fixed_model 0 \<lparr>Gender = 0, Age = 25, Height = 170, Weight = 70, Duration = 30,
          Heart_Rate = 140, Body_Temp = 75 / 2\<rparr>
     \<and> analyze_workout id gender_column_model ''Female'' 25 170 70 30 140 (75 / 2)
         = analyze_workout id (fixed_model 0) ''Female'' 25 170 70 30 140 (75 / 2)"
  using gender_encoding [where gender = "''Male''" and age = 25 and height = 170 and weight = 70
      and duration = 30 and heart_rate = 140 and body_temp = "75 / 2"
      and predict = gender_column_model and predict' = gender_column_model and fl = id
      and r = "\<lparr>rep_prediction = 1, rep_cal_per_min = Finite (1 / 30), rep_intensity_info = zone_3,
                rep_bmi = 7000 / 289, rep_bmi_status = ''Normal'',
                rep_recommendation = recommend (Finite (1 / 30))\<rparr>"]
    gender_encoding [where gender = "''Female''" and age = 25 and height = 170 and weight = 70
      and duration = 30 and heart_rate = 140 and body_temp = "75 / 2"
      and predict = gender_column_model and predict' = "fixed_model 0" and fl = id
      and r = "\<lparr>rep_prediction = 0, rep_cal_per_min = Finite 0, rep_intensity_info = zone_3,
                rep_bmi = 7000 / 289, rep_bmi_status = ''Normal'',
                rep_recommendation = recommend (Finite 0)\<rparr>"]
  by (simp add: rounds_normal_id exact_int_def gender_column_model_def fixed_model_def
      analyze_workout_def Let_def input_data_def gender_encoded_def cal_per_min_def np_truediv_def
      get_intensity_zone_def hr_percentage_ok calculate_max_heart_rate_def
      bmi_def truediv_def bmi_status_def power2_eq_square)

end
